theory Spec2Isabelle
  imports Main "HOL-Library.FSet"
begin

section \<open>Room coordination and event relay of server.js\<close>

text \<open>
  The server keeps one process-wide registry \<open>gameRooms\<close> (a JavaScript \<open>Map\<close> from
  room code to \<open>GameRoom\<close>) and two socket.io namespaces, \<open>/chat\<close> and \<open>/update\<close>.
  Every handler runs to completion before the next one starts, so a handler is a function
  from the state before to the state after, together with the emissions it makes, in
  order. A handler that throws returns \<open>Inl\<close>; the retry loop of \<open>createRoom\<close>, which
  has no bound, returns \<open>None\<close> when it never ends.
\<close>

subsection \<open>Data\<close>

type_synonym sid = string
type_synonym item = string

text \<open>
  Modelled from the spec: \<open>room.js\<close>, which exports \<open>GameRoom\<close> and
  \<open>generateRoomCode\<close>, is not among the sources. A room has its code, a member set of
  connection identities and a wishlist; the spec speaks of a wishlist that "already
  exists", so a new room has none yet.
\<close>

record GameRoom =
  code :: string
  players :: "sid fset"
  wishlist :: "item list option"

text \<open>Modelled from the spec: \<open>new GameRoom(code)\<close> is a new empty room.\<close>

definition newGameRoom :: "string \<Rightarrow> GameRoom" where
  "newGameRoom c = \<lparr>code = c, players = {||}, wishlist = None\<rparr>"

text \<open>
  Modelled from the spec: \<open>addPlayer\<close> inserts the identity into the member set and is a
  no-op when it is already there.
\<close>

definition addPlayer :: "GameRoom \<Rightarrow> sid \<Rightarrow> GameRoom" where
  "addPlayer r s = r\<lparr>players := finsert s (players r)\<rparr>"

text \<open>Modelled from the spec: \<open>removePlayer\<close> removes the identity; the room never deletes itself.\<close>

definition removePlayer :: "GameRoom \<Rightarrow> sid \<Rightarrow> GameRoom" where
  "removePlayer r s = r\<lparr>players := players r |-| {|s|}\<rparr>"

text \<open>Modelled from the spec: \<open>numPlayers\<close> is the member count.\<close>

definition numPlayers :: "GameRoom \<Rightarrow> nat" where
  "numPlayers r = fcard (players r)"

definition ROOM_CODE_LENGTH :: nat where
  "ROOM_CODE_LENGTH = 6"

text \<open>
  Modelled from the spec: \<open>generateRoomCode(length)\<close> produces a code of exactly
  \<open>length\<close> characters from a fixed alphabet (an implementer's choice). Its randomness is
  the argument \<open>rnd\<close>: the \<open>j\<close>-th random draw of this call.
\<close>

definition alphabet :: string where
  "alphabet = ''ABCDEFGHIJKLMNOPQRSTUVWXYZ0123456789''"

definition generateRoomCode :: "(nat \<Rightarrow> nat) \<Rightarrow> nat \<Rightarrow> string" where
  "generateRoomCode rnd len = map (\<lambda>j. alphabet ! (rnd j mod length alphabet)) [0..<len]"

text \<open>\<open>socket.userData\<close> of the two namespaces.\<close>

record chatUserData =
  chatName :: string

record userData =
  name :: string
  roomCode :: string

text \<open>
  The argument of \<open>sendMessage\<close> is destructured as \<open>{ message, roomName }\<close>: what a
  client sends is \<open>undefined\<close> (no argument), \<open>null\<close>, or a value whose two properties are
  read, each of which may be missing.
\<close>

datatype payload = Undefined | Null | Obj "string option" "string option"

datatype error = TypeError

datatype nsp = Chat | Update

datatype out_event =
    BroadcastMessage sid "string option" string
  | NewVoicePeer sid
  | ExistingVoicePeers "sid list"
  | InvalidRoomCode string
  | GenerateCode string
  | WishlistUpdated "item list"
  | SetID sid

text \<open>One call of \<open>emit\<close>: the namespace, the connections it is delivered to, the event.\<close>

datatype emission = Emit nsp "sid set" out_event

text \<open>
  The state: the registry, and for each namespace its connected sockets, their
  \<open>userData\<close>, and the rooms of its adapter (\<open>adapter.rooms\<close>, a \<open>Map\<close> from room name to
  a \<open>Set\<close> of socket ids, kept here in insertion order).
\<close>

record world =
  gameRooms :: "string \<rightharpoonup> GameRoom"
  chatSockets :: "sid set"
  chatData :: "sid \<Rightarrow> chatUserData"
  chatRooms :: "string \<rightharpoonup> sid list"
  updSockets :: "sid set"
  updData :: "sid \<Rightarrow> userData"
  updRooms :: "string \<rightharpoonup> sid list"

definition init :: world where
  "init = \<lparr>gameRooms = Map.empty,
           chatSockets = {}, chatData = (\<lambda>_. \<lparr>chatName = ''''\<rparr>), chatRooms = Map.empty,
           updSockets = {}, updData = (\<lambda>_. \<lparr>name = '''', roomCode = ''''\<rparr>), updRooms = Map.empty\<rparr>"

subsection \<open>The transport's rooms\<close>

text \<open>
  What the handlers use of socket.io: \<open>rooms.get(c) || []\<close>, \<open>socket.join(c)\<close>, and
  the departure from every room when a socket disconnects (an emptied room is dropped
  from the adapter). At its connection a socket joins the room named by its own id, so
  the rooms of an adapter are those rooms together with the ones the handlers join;
  a client may name either kind.
\<close>

definition members :: "(string \<rightharpoonup> sid list) \<Rightarrow> string \<Rightarrow> sid list" where
  "members rs c = (case rs c of None \<Rightarrow> [] | Some ms \<Rightarrow> ms)"

definition join :: "(string \<rightharpoonup> sid list) \<Rightarrow> sid \<Rightarrow> string \<Rightarrow> (string \<rightharpoonup> sid list)" where
  "join rs s c = rs(c \<mapsto> (if s \<in> set (members rs c) then members rs c else members rs c @ [s]))"

definition leaveAll :: "(string \<rightharpoonup> sid list) \<Rightarrow> sid \<Rightarrow> (string \<rightharpoonup> sid list)" where
  "leaveAll rs s =
     (\<lambda>c. case rs c of None \<Rightarrow> None
          | Some ms \<Rightarrow> (if removeAll s ms = [] then None else Some (removeAll s ms)))"

text \<open>
  \<open>to(room)\<close> of a namespace, and \<open>except(room)\<close>, which takes out of the targets every
  socket that is in the excepted room. The handlers except the room named by the
  sender's id: \<open>.except(socket.id)\<close> says so, and \<open>socket.to(room)\<close> does it by itself.
\<close>

definition to_room :: "(string \<rightharpoonup> sid list) \<Rightarrow> string option \<Rightarrow> sid set" where
  "to_room rs c = (case c of None \<Rightarrow> {} | Some k \<Rightarrow> set (members rs k))"

definition except :: "(string \<rightharpoonup> sid list) \<Rightarrow> sid set \<Rightarrow> string \<Rightarrow> sid set" where
  "except rs tgt room = tgt - set (members rs room)"

subsection \<open>Handlers of the chat namespace\<close>

definition chat_connection :: "world \<Rightarrow> sid \<Rightarrow> world" where
  "chat_connection w s =
     w\<lparr>chatSockets := insert s (chatSockets w),
       chatRooms := join (chatRooms w) s s,
       chatData := (chatData w)(s := \<lparr>chatName = ''''\<rparr>)\<rparr>"

definition chat_setName :: "world \<Rightarrow> sid \<Rightarrow> string \<Rightarrow> world \<times> emission list" where
  "chat_setName w s n = (w\<lparr>chatData := (chatData w)(s := (chatData w s)\<lparr>chatName := n\<rparr>)\<rparr>, [])"

definition chat_generateCode :: "world \<Rightarrow> sid \<Rightarrow> string \<Rightarrow> world \<times> emission list" where
  "chat_generateCode w s c = (w\<lparr>chatRooms := join (chatRooms w) s c\<rparr>, [])"

definition sendMessage :: "world \<Rightarrow> sid \<Rightarrow> payload \<Rightarrow> error + world \<times> emission list" where
  "sendMessage w s p =
     (case p of
        Undefined \<Rightarrow> Inl TypeError
      | Null \<Rightarrow> Inl TypeError
      | Obj message roomName \<Rightarrow>
          Inr (w, [Emit Chat (except (chatRooms w) (to_room (chatRooms w) roomName) s)
                     (BroadcastMessage s message (chatName (chatData w s)))]))"

definition joinVoiceRoom :: "world \<Rightarrow> sid \<Rightarrow> string \<Rightarrow> world \<times> emission list" where
  "joinVoiceRoom w s c =
     (let w1 = w\<lparr>chatRooms := join (chatRooms w) s c\<rparr>;
          existingPeers = filter (\<lambda>i. i \<noteq> s) (members (chatRooms w1) c)
      in (w1, [Emit Chat (except (chatRooms w1) (to_room (chatRooms w1) (Some c)) s) (NewVoicePeer s),
               Emit Chat {s} (ExistingVoicePeers existingPeers)]))"

definition chat_disconnect :: "world \<Rightarrow> sid \<Rightarrow> world \<times> emission list" where
  "chat_disconnect w s =
     (w\<lparr>chatSockets := chatSockets w - {s}, chatRooms := leaveAll (chatRooms w) s\<rparr>, [])"

subsection \<open>Handlers of the update namespace\<close>

text \<open>The default name \<open>Player<n>\<close> is random; it is the argument \<open>n0\<close>.\<close>

definition upd_connection :: "world \<Rightarrow> sid \<Rightarrow> string \<Rightarrow> world" where
  "upd_connection w s n0 =
     w\<lparr>updSockets := insert s (updSockets w),
       updRooms := join (updRooms w) s s,
       updData := (updData w)(s := \<lparr>name = n0, roomCode = ''''\<rparr>)\<rparr>"

definition setID :: "world \<Rightarrow> sid \<Rightarrow> world \<times> emission list" where
  "setID w s = (w, [Emit Update (updSockets w) (SetID s)])"

definition upd_setName :: "world \<Rightarrow> sid \<Rightarrow> string \<Rightarrow> world \<times> emission list" where
  "upd_setName w s n = (w\<lparr>updData := (updData w)(s := (updData w s)\<lparr>name := n\<rparr>)\<rparr>, [])"

definition joinRoom :: "world \<Rightarrow> sid \<Rightarrow> string \<Rightarrow> world \<times> emission list" where
  "joinRoom w s c =
     (case gameRooms w c of
        None \<Rightarrow> (w, [Emit Update {s} (InvalidRoomCode ''Not a valid room code.'')])
      | Some r \<Rightarrow>
          (w\<lparr>updData := (updData w)(s := (updData w s)\<lparr>roomCode := c\<rparr>),
             gameRooms := (gameRooms w)(c \<mapsto> addPlayer r s),
             updRooms := join (updRooms w) s c\<rparr>,
           Emit Update {s} (GenerateCode c) #
           (case wishlist (addPlayer r s) of
              None \<Rightarrow> []
            | Some wl \<Rightarrow> (if 0 < length wl then [Emit Update {s} (WishlistUpdated wl)] else []))))"

text \<open>
  The loop of \<open>createRoom\<close>: \<open>tape k\<close> is the randomness of the \<open>k\<close>-th call of the
  generator. There is no retry cap, so the loop is a partial function.
\<close>

partial_function (option) newCode :: "(string \<rightharpoonup> GameRoom) \<Rightarrow> (nat \<Rightarrow> nat \<Rightarrow> nat) \<Rightarrow> nat \<Rightarrow> string option" where
  "newCode rooms tape k =
     (if rooms (generateRoomCode (tape k) ROOM_CODE_LENGTH) \<noteq> None
      then newCode rooms tape (Suc k)
      else Some (generateRoomCode (tape k) ROOM_CODE_LENGTH))"

definition createRoom :: "world \<Rightarrow> sid \<Rightarrow> (nat \<Rightarrow> nat \<Rightarrow> nat) \<Rightarrow> (world \<times> emission list) option" where
  "createRoom w s tape =
     (case newCode (gameRooms w) tape 0 of
        None \<Rightarrow> None
      | Some c \<Rightarrow>
          Some (w\<lparr>updData := (updData w)(s := (updData w s)\<lparr>roomCode := c\<rparr>),
                  gameRooms := (gameRooms w)(c \<mapsto> addPlayer (newGameRoom c) s),
                  updRooms := join (updRooms w) s c\<rparr>,
                [Emit Update {s} (GenerateCode c)]))"

definition updateWishlist :: "world \<Rightarrow> sid \<Rightarrow> item list \<Rightarrow> world \<times> emission list" where
  "updateWishlist w s wl =
     (if roomCode (updData w s) = '''' then (w, [])
      else (case gameRooms w (roomCode (updData w s)) of
              Some room \<Rightarrow>
                (w\<lparr>gameRooms := (gameRooms w)(roomCode (updData w s) \<mapsto> room\<lparr>wishlist := Some wl\<rparr>)\<rparr>,
                 [Emit Update (to_room (updRooms w) (Some (roomCode (updData w s)))) (WishlistUpdated wl)])
            | None \<Rightarrow> (w, [])))"

definition disconnecting :: "world \<Rightarrow> sid \<Rightarrow> error + world \<times> emission list" where
  "disconnecting w s =
     (if roomCode (updData w s) \<noteq> '''' then
        (case gameRooms w (roomCode (updData w s)) of
           None \<Rightarrow> Inl TypeError
         | Some room \<Rightarrow>
             (if numPlayers (removePlayer room s) = 0
              then Inr (w\<lparr>gameRooms := (gameRooms w)(roomCode (updData w s) := None)\<rparr>, [])
              else Inr (w\<lparr>gameRooms := (gameRooms w)(roomCode (updData w s) \<mapsto> removePlayer room s)\<rparr>, [])))
      else Inr (w, []))"

text \<open>After \<open>disconnecting\<close> the transport takes the socket out of every room and drops it.\<close>

definition upd_disconnect :: "world \<Rightarrow> sid \<Rightarrow> error + world \<times> emission list" where
  "upd_disconnect w s =
     (case disconnecting w s of
        Inl e \<Rightarrow> Inl e
      | Inr (w1, out) \<Rightarrow>
          Inr (w1\<lparr>updSockets := updSockets w1 - {s}, updRooms := leaveAll (updRooms w1) s\<rparr>, out))"

subsection \<open>Events and reachable states\<close>

datatype event =
    ChatConnect sid
  | ChatSetName sid string
  | ChatGenerateCode sid string
  | ChatSendMessage sid payload
  | ChatJoinVoiceRoom sid string
  | ChatDisconnect sid
  | UpdConnect sid string
  | UpdSetID sid
  | UpdSetName sid string
  | UpdJoinRoom sid string
  | UpdCreateRoom sid "nat \<Rightarrow> nat \<Rightarrow> nat"
  | UpdUpdateWishlist sid "item list"
  | UpdDisconnect sid

text \<open>
  One event, handled to completion: \<open>None\<close> when the handler never returns,
  \<open>Some (Inl e)\<close> when it throws, \<open>Some (Inr (w', out))\<close> otherwise.
\<close>

fun step :: "world \<Rightarrow> event \<Rightarrow> (error + world \<times> emission list) option" where
  "step w (ChatConnect s) = Some (Inr (chat_connection w s, []))"
| "step w (ChatSetName s n) = Some (Inr (chat_setName w s n))"
| "step w (ChatGenerateCode s c) = Some (Inr (chat_generateCode w s c))"
| "step w (ChatSendMessage s p) = Some (sendMessage w s p)"
| "step w (ChatJoinVoiceRoom s c) = Some (Inr (joinVoiceRoom w s c))"
| "step w (ChatDisconnect s) = Some (Inr (chat_disconnect w s))"
| "step w (UpdConnect s n0) = Some (Inr (upd_connection w s n0, []))"
| "step w (UpdSetID s) = Some (Inr (setID w s))"
| "step w (UpdSetName s n) = Some (Inr (upd_setName w s n))"
| "step w (UpdJoinRoom s c) = Some (Inr (joinRoom w s c))"
| "step w (UpdCreateRoom s tape) = map_option Inr (createRoom w s tape)"
| "step w (UpdUpdateWishlist s wl) = Some (Inr (updateWishlist w s wl))"
| "step w (UpdDisconnect s) = Some (upd_disconnect w s)"

text \<open>
  The transport gives a new connection an identity that was never used (no connected
  socket has it and, on the update namespace, no room lists it as a player), and delivers
  events of connected sockets only.
\<close>

fun enabled :: "world \<Rightarrow> event \<Rightarrow> bool" where
  "enabled w (ChatConnect s) = (s \<notin> chatSockets w)"
| "enabled w (ChatSetName s n) = (s \<in> chatSockets w)"
| "enabled w (ChatGenerateCode s c) = (s \<in> chatSockets w)"
| "enabled w (ChatSendMessage s p) = (s \<in> chatSockets w)"
| "enabled w (ChatJoinVoiceRoom s c) = (s \<in> chatSockets w)"
| "enabled w (ChatDisconnect s) = (s \<in> chatSockets w)"
| "enabled w (UpdConnect s n0) =
     (s \<notin> updSockets w \<and> (\<forall>c r. gameRooms w c = Some r \<longrightarrow> s |\<notin>| players r))"
| "enabled w (UpdSetID s) = (s \<in> updSockets w)"
| "enabled w (UpdSetName s n) = (s \<in> updSockets w)"
| "enabled w (UpdJoinRoom s c) = (s \<in> updSockets w)"
| "enabled w (UpdCreateRoom s tape) = (s \<in> updSockets w)"
| "enabled w (UpdUpdateWishlist s wl) = (s \<in> updSockets w)"
| "enabled w (UpdDisconnect s) = (s \<in> updSockets w)"

inductive reachable :: "world \<Rightarrow> bool" where
  reachable_init: "reachable init"
| reachable_step: "reachable w \<Longrightarrow> enabled w e \<Longrightarrow> step w e = Some (Inr (w', out)) \<Longrightarrow> reachable w'"

text \<open>The stored affiliation of a session: \<open>Unaffiliated\<close> is the empty room code.\<close>

definition affiliation :: "world \<Rightarrow> sid \<Rightarrow> string option" where
  "affiliation w s = (if roomCode (updData w s) = '''' then None else Some (roomCode (updData w s)))"

subsection \<open>Sequences of createRoom, and the invariants of the registry\<close>

text \<open>The codes a list of emissions acknowledges with \<open>generateCode\<close>.\<close>

fun acked :: "emission \<Rightarrow> string list" where
  "acked (Emit n tgt (GenerateCode c)) = [c]"
| "acked (Emit n tgt ev) = []"

definition codes :: "emission list \<Rightarrow> string list" where
  "codes out = concat (map acked out)"

text \<open>A sequence of \<open>createRoom\<close> events, each with its caller and its randomness.\<close>

fun createRooms :: "world \<Rightarrow> (sid \<times> (nat \<Rightarrow> nat \<Rightarrow> nat)) list \<Rightarrow> (world \<times> emission list) option" where
  "createRooms w [] = Some (w, [])"
| "createRooms w ((s, tape) # reqs) =
     (case createRoom w s tape of
        None \<Rightarrow> None
      | Some (w1, out1) \<Rightarrow>
          (case createRooms w1 reqs of
             None \<Rightarrow> None
           | Some (w2, out2) \<Rightarrow> Some (w2, out1 @ out2)))"

text \<open>No room of the registry has an empty member set.\<close>

definition no_empty_room :: "world \<Rightarrow> bool" where
  "no_empty_room w \<longleftrightarrow> (\<forall>c r. gameRooms w c = Some r \<longrightarrow> players r \<noteq> {||})"

text \<open>
  A connected session with a room code refers to a room of the registry, is one of its
  players, and is in the transport's room of that name.
\<close>

definition affiliated :: "world \<Rightarrow> bool" where
  "affiliated w \<longleftrightarrow>
     (\<forall>s. s \<in> updSockets w \<and> roomCode (updData w s) \<noteq> '''' \<longrightarrow>
        (\<exists>r. gameRooms w (roomCode (updData w s)) = Some r \<and> s |\<in>| players r) \<and>
        s \<in> set (members (updRooms w) (roomCode (updData w s))))"

text \<open>A connected player of a room of the registry is in the transport's room of that name.\<close>

definition players_joined :: "world \<Rightarrow> bool" where
  "players_joined w \<longleftrightarrow>
     (\<forall>c r t. gameRooms w c = Some r \<and> t |\<in>| players r \<and> t \<in> updSockets w \<longrightarrow>
        t \<in> set (members (updRooms w) c))"

subsection \<open>Example runs\<close>

text \<open>
  A generator whose \<open>k\<close>-th call draws \<open>k\<close> six times: its codes are \<open>AAAAAA\<close>,
  \<open>BBBBBB\<close>, and so on.
\<close>

definition tape_inc :: "nat \<Rightarrow> nat \<Rightarrow> nat" where
  "tape_inc k j = k"

text \<open>
  Socket \<open>a\<close> connects to the update namespace and creates a room (\<open>ex_created\<close>); socket
  \<open>b\<close> connects and joins it (\<open>ex_joined\<close>); \<open>a\<close> sets the wishlist (\<open>ex_listed\<close>).
\<close>

definition ex_connected :: world where
  "ex_connected = upd_connection init ''a'' ''Player7''"

definition ex_created :: world where
  "ex_created =
     ex_connected\<lparr>updData := (updData ex_connected)(''a'' := (updData ex_connected ''a'')\<lparr>roomCode := ''AAAAAA''\<rparr>),
                  gameRooms := (gameRooms ex_connected)(''AAAAAA'' \<mapsto> addPlayer (newGameRoom ''AAAAAA'') ''a''),
                  updRooms := join (updRooms ex_connected) ''a'' ''AAAAAA''\<rparr>"

definition ex_joined :: world where
  "ex_joined = fst (joinRoom (upd_connection ex_created ''b'' ''Player8'') ''b'' ''AAAAAA'')"

definition ex_listed :: world where
  "ex_listed = fst (updateWishlist ex_joined ''a'' [''milk''])"

text \<open>
  On the chat namespace, \<open>a\<close> joins the delivery group \<open>R1\<close> and \<open>b\<close> the group \<open>R2\<close>.
\<close>

definition ex_chat :: world where
  "ex_chat =
     fst (chat_generateCode
            (fst (chat_generateCode (chat_connection (chat_connection init ''a'') ''b'') ''a'' ''R1''))
            ''b'' ''R2'')"


text \<open>
  After \<open>ex_created\<close>, socket \<open>a\<close> sends \<open>createRoom\<close> once more, with the same
  generator: its first code is taken, its second is \<open>BBBBBB\<close>.
\<close>

definition ex_recreated :: world where
  "ex_recreated =
     ex_created\<lparr>updData := (updData ex_created)(''a'' := (updData ex_created ''a'')\<lparr>roomCode := ''BBBBBB''\<rparr>),
                gameRooms := (gameRooms ex_created)(''BBBBBB'' \<mapsto> addPlayer (newGameRoom ''BBBBBB'') ''a''),
                updRooms := join (updRooms ex_created) ''a'' ''BBBBBB''\<rparr>"


section \<open>Properties\<close>

subsection \<open>The generator and the retry loop\<close>

lemma generateRoomCode_length: "length (generateRoomCode rnd len) = len"
  by (simp add: generateRoomCode_def)

lemma newCode_Some:
  assumes "newCode rooms tape k = Some c"
  shows "rooms c = None \<and> (\<exists>j\<ge>k. c = generateRoomCode (tape j) ROOM_CODE_LENGTH
           \<and> (\<forall>i. k \<le> i \<and> i < j \<longrightarrow> rooms (generateRoomCode (tape i) ROOM_CODE_LENGTH) \<noteq> None))"
proof (rule newCode.raw_induct[OF _ assms])
  fix f :: "(string \<rightharpoonup> GameRoom) \<Rightarrow> (nat \<Rightarrow> nat \<Rightarrow> nat) \<Rightarrow> nat \<Rightarrow> string option"
  fix rooms tape k c
  assume IH: "\<And>rooms tape k c. f rooms tape k = Some c \<Longrightarrow>
     rooms c = None \<and> (\<exists>j\<ge>k. c = generateRoomCode (tape j) ROOM_CODE_LENGTH
           \<and> (\<forall>i. k \<le> i \<and> i < j \<longrightarrow> rooms (generateRoomCode (tape i) ROOM_CODE_LENGTH) \<noteq> None))"
  assume body: "(if rooms (generateRoomCode (tape k) ROOM_CODE_LENGTH) \<noteq> None
      then f rooms tape (Suc k)
      else Some (generateRoomCode (tape k) ROOM_CODE_LENGTH)) = Some c"
  show "rooms c = None \<and> (\<exists>j\<ge>k. c = generateRoomCode (tape j) ROOM_CODE_LENGTH
           \<and> (\<forall>i. k \<le> i \<and> i < j \<longrightarrow> rooms (generateRoomCode (tape i) ROOM_CODE_LENGTH) \<noteq> None))"
  proof (cases "rooms (generateRoomCode (tape k) ROOM_CODE_LENGTH) = None")
    case True
    with body have "c = generateRoomCode (tape k) ROOM_CODE_LENGTH" by simp
    with True show ?thesis by auto
  next
    case False
    with body have "f rooms tape (Suc k) = Some c" by simp
    from IH[OF this] obtain j where j: "rooms c = None" "Suc k \<le> j"
      "c = generateRoomCode (tape j) ROOM_CODE_LENGTH"
      "\<forall>i. Suc k \<le> i \<and> i < j \<longrightarrow> rooms (generateRoomCode (tape i) ROOM_CODE_LENGTH) \<noteq> None"
      by blast
    have "\<forall>i. k \<le> i \<and> i < j \<longrightarrow> rooms (generateRoomCode (tape i) ROOM_CODE_LENGTH) \<noteq> None"
    proof (intro allI impI)
      fix i assume "k \<le> i \<and> i < j"
      then consider "i = k" | "Suc k \<le> i \<and> i < j" by linarith
      then show "rooms (generateRoomCode (tape i) ROOM_CODE_LENGTH) \<noteq> None"
        using False j(4) by cases auto
    qed
    with j show ?thesis by (intro conjI exI[of _ j]) auto
  qed
qed

lemma newCode_returns:
  "(\<forall>i<n. rooms (generateRoomCode (tape (k + i)) ROOM_CODE_LENGTH) \<noteq> None) \<Longrightarrow>
   rooms (generateRoomCode (tape (k + n)) ROOM_CODE_LENGTH) = None \<Longrightarrow>
   newCode rooms tape k = Some (generateRoomCode (tape (k + n)) ROOM_CODE_LENGTH)"
proof (induction n arbitrary: k)
  case 0
  then show ?case by (subst newCode.simps) simp
next
  case (Suc n)
  have taken: "rooms (generateRoomCode (tape k) ROOM_CODE_LENGTH) \<noteq> None"
    using Suc.prems(1)[rule_format, of 0] by simp
  have "newCode rooms tape (Suc k) = Some (generateRoomCode (tape (Suc k + n)) ROOM_CODE_LENGTH)"
  proof (rule Suc.IH)
    show "\<forall>i<n. rooms (generateRoomCode (tape (Suc k + i)) ROOM_CODE_LENGTH) \<noteq> None"
      using Suc.prems(1) by (metis add_Suc_shift Suc_mono)
    show "rooms (generateRoomCode (tape (Suc k + n)) ROOM_CODE_LENGTH) = None"
      using Suc.prems(2) by simp
  qed
  with taken show ?case by (subst newCode.simps) simp
qed

lemma newCode_fresh: "newCode rooms tape k = Some c \<Longrightarrow> rooms c = None"
  using newCode_Some by blast

lemma newCode_length: "newCode rooms tape k = Some c \<Longrightarrow> length c = ROOM_CODE_LENGTH"
  using newCode_Some[of rooms tape k c] by (auto simp: generateRoomCode_length)

lemma newCode_nonempty: "newCode rooms tape k = Some c \<Longrightarrow> c \<noteq> ''''"
  using newCode_length[of rooms tape k c] by (auto simp: ROOM_CODE_LENGTH_def)

subsection \<open>Rooms of the transport, and the invariants along every run\<close>

lemma members_join: "set (members (join rs s c) c') = (if c' = c then insert s (set (members rs c)) else set (members rs c'))"
  by (auto simp: members_def join_def)

lemma members_leaveAll: "set (members (leaveAll rs s) c) = set (members rs c) - {s}"
proof (cases "rs c")
  case None
  then show ?thesis by (simp add: members_def leaveAll_def)
next
  case (Some ms)
  have "removeAll s ms = [] \<Longrightarrow> set ms - {s} = {}"
    by (metis set_removeAll list.set(1))
  with Some show ?thesis by (auto simp: members_def leaveAll_def)
qed

lemma numPlayers_0: "numPlayers r = 0 \<longleftrightarrow> players r = {||}"
  by (simp add: numPlayers_def)

lemma affiliatedD:
  "affiliated w \<Longrightarrow> t \<in> updSockets w \<Longrightarrow> roomCode (updData w t) \<noteq> '''' \<Longrightarrow>
   (\<exists>r. gameRooms w (roomCode (updData w t)) = Some r \<and> t |\<in>| players r) \<and>
   t \<in> set (members (updRooms w) (roomCode (updData w t)))"
  unfolding affiliated_def by blast

lemma affiliatedI:
  "(\<And>t. t \<in> updSockets w \<Longrightarrow> roomCode (updData w t) \<noteq> '''' \<Longrightarrow>
     (\<exists>r. gameRooms w (roomCode (updData w t)) = Some r \<and> t |\<in>| players r) \<and>
     t \<in> set (members (updRooms w) (roomCode (updData w t)))) \<Longrightarrow> affiliated w"
  unfolding affiliated_def by blast

lemma joinRoom_affiliated:
  assumes "affiliated w" "joinRoom w s c = (w', out)"
  shows "affiliated w'"
proof (cases "gameRooms w c")
  case None
  with assms show ?thesis by (simp add: joinRoom_def)
next
  case (Some r)
  with assms(2) have w': "w' = w\<lparr>updData := (updData w)(s := (updData w s)\<lparr>roomCode := c\<rparr>),
             gameRooms := (gameRooms w)(c \<mapsto> addPlayer r s),
             updRooms := join (updRooms w) s c\<rparr>"
    by (simp add: joinRoom_def)
  show ?thesis
  proof (rule affiliatedI)
    fix t assume t: "t \<in> updSockets w'" "roomCode (updData w' t) \<noteq> ''''"
    show "(\<exists>r. gameRooms w' (roomCode (updData w' t)) = Some r \<and> t |\<in>| players r) \<and>
          t \<in> set (members (updRooms w') (roomCode (updData w' t)))"
    proof (cases "t = s")
      case True
      then show ?thesis by (simp add: w' addPlayer_def members_join)
    next
      case False
      with t have "t \<in> updSockets w" "roomCode (updData w t) \<noteq> ''''" by (simp_all add: w')
      from affiliatedD[OF assms(1) this] False Some show ?thesis
        by (auto simp: w' addPlayer_def members_join)
    qed
  qed
qed

lemma createRoom_affiliated:
  assumes "affiliated w" "createRoom w s tape = Some (w', out)"
  shows "affiliated w'"
proof -
  from assms(2) obtain c where c: "newCode (gameRooms w) tape 0 = Some c"
    and w': "w' = w\<lparr>updData := (updData w)(s := (updData w s)\<lparr>roomCode := c\<rparr>),
                  gameRooms := (gameRooms w)(c \<mapsto> addPlayer (newGameRoom c) s),
                  updRooms := join (updRooms w) s c\<rparr>"
    by (auto simp: createRoom_def split: option.splits)
  have fresh: "gameRooms w c = None" using c by (rule newCode_fresh)
  show ?thesis
  proof (rule affiliatedI)
    fix t assume t: "t \<in> updSockets w'" "roomCode (updData w' t) \<noteq> ''''"
    show "(\<exists>r. gameRooms w' (roomCode (updData w' t)) = Some r \<and> t |\<in>| players r) \<and>
          t \<in> set (members (updRooms w') (roomCode (updData w' t)))"
    proof (cases "t = s")
      case True
      then show ?thesis by (simp add: w' addPlayer_def members_join)
    next
      case False
      with t have "t \<in> updSockets w" "roomCode (updData w t) \<noteq> ''''" by (simp_all add: w')
      from affiliatedD[OF assms(1) this] False fresh show ?thesis
        by (auto simp: w' members_join)
    qed
  qed
qed

lemma updateWishlist_affiliated:
  assumes "affiliated w" "updateWishlist w s wl = (w', out)"
  shows "affiliated w'"
proof (rule affiliatedI)
  fix t assume t: "t \<in> updSockets w'" "roomCode (updData w' t) \<noteq> ''''"
  from assms(2) have same: "updSockets w' = updSockets w" "updData w' = updData w" "updRooms w' = updRooms w"
    by (auto simp: updateWishlist_def split: if_splits option.splits)
  with t have "t \<in> updSockets w" "roomCode (updData w t) \<noteq> ''''" by simp_all
  from affiliatedD[OF assms(1) this] assms(2)
  show "(\<exists>r. gameRooms w' (roomCode (updData w' t)) = Some r \<and> t |\<in>| players r) \<and>
          t \<in> set (members (updRooms w') (roomCode (updData w' t)))"
    by (auto simp: updateWishlist_def split: if_splits option.splits)
qed

lemma upd_disconnect_affiliated:
  assumes "affiliated w" "upd_disconnect w s = Inr (w', out)"
  shows "affiliated w'"
proof (rule affiliatedI)
  fix t assume t: "t \<in> updSockets w'" "roomCode (updData w' t) \<noteq> ''''"
  from assms(2) have same: "updSockets w' = updSockets w - {s}" "updData w' = updData w"
    "updRooms w' = leaveAll (updRooms w) s"
    by (auto simp: upd_disconnect_def disconnecting_def split: if_splits option.splits sum.splits)
  with t have ts: "t \<noteq> s" and "t \<in> updSockets w" "roomCode (updData w t) \<noteq> ''''" by simp_all
  from affiliatedD[OF assms(1) this(2,3)] obtain r where
    r: "gameRooms w (roomCode (updData w t)) = Some r" "t |\<in>| players r"
    and m: "t \<in> set (members (updRooms w) (roomCode (updData w t)))" by blast
  have stay: "t |\<in>| players (removePlayer r s)" "numPlayers (removePlayer r s) \<noteq> 0"
    using r(2) ts by (auto simp: removePlayer_def numPlayers_0)
  have "\<exists>r. gameRooms w' (roomCode (updData w t)) = Some r \<and> t |\<in>| players r"
    using assms(2) r stay
    by (auto simp: upd_disconnect_def disconnecting_def
        split: if_splits option.splits sum.splits)
  with m ts show "(\<exists>r. gameRooms w' (roomCode (updData w' t)) = Some r \<and> t |\<in>| players r) \<and>
          t \<in> set (members (updRooms w') (roomCode (updData w' t)))"
    by (simp add: same members_leaveAll)
qed

lemma joinRoom_no_empty_room:
  "no_empty_room w \<Longrightarrow> joinRoom w s c = (w', out) \<Longrightarrow> no_empty_room w'"
  by (auto simp: no_empty_room_def joinRoom_def addPlayer_def split: option.splits if_splits)

lemma createRoom_no_empty_room:
  "no_empty_room w \<Longrightarrow> createRoom w s tape = Some (w', out) \<Longrightarrow> no_empty_room w'"
  by (auto simp: no_empty_room_def createRoom_def addPlayer_def newGameRoom_def split: option.splits if_splits)

lemma updateWishlist_no_empty_room:
  "no_empty_room w \<Longrightarrow> updateWishlist w s wl = (w', out) \<Longrightarrow> no_empty_room w'"
  by (auto simp: no_empty_room_def updateWishlist_def split: option.splits if_splits)

lemma disconnecting_no_empty_room:
  "no_empty_room w \<Longrightarrow> disconnecting w s = Inr (w', out) \<Longrightarrow> no_empty_room w'"
  by (auto simp: no_empty_room_def disconnecting_def numPlayers_0 split: option.splits if_splits)

lemma upd_disconnect_no_empty_room:
  "no_empty_room w \<Longrightarrow> upd_disconnect w s = Inr (w', out) \<Longrightarrow> no_empty_room w'"
proof -
  assume inv: "no_empty_room w" and d: "upd_disconnect w s = Inr (w', out)"
  from d obtain w1 where w1: "disconnecting w s = Inr (w1, out)" and "gameRooms w' = gameRooms w1"
    by (auto simp: upd_disconnect_def split: sum.splits)
  with disconnecting_no_empty_room[OF inv w1] show "no_empty_room w'"
    by (simp add: no_empty_room_def)
qed

lemma step_no_empty_room:
  assumes "no_empty_room w" "step w e = Some (Inr (w', out))"
  shows "no_empty_room w'"
proof (cases e)
  case (UpdJoinRoom s c)
  with assms show ?thesis by (auto dest: joinRoom_no_empty_room)
next
  case (UpdCreateRoom s tape)
  with assms show ?thesis by (auto dest: createRoom_no_empty_room)
next
  case (UpdUpdateWishlist s wl)
  with assms show ?thesis by (auto dest: updateWishlist_no_empty_room)
next
  case (UpdDisconnect s)
  with assms show ?thesis by (auto dest: upd_disconnect_no_empty_room)
next
  case (ChatSendMessage s p)
  with assms show ?thesis by (auto simp: no_empty_room_def sendMessage_def split: payload.splits)
qed (use assms in \<open>auto simp: no_empty_room_def chat_connection_def chat_setName_def
      chat_generateCode_def joinVoiceRoom_def chat_disconnect_def setID_def upd_setName_def
      upd_connection_def Let_def\<close>)

lemma step_affiliated:
  assumes "affiliated w" "step w e = Some (Inr (w', out))"
  shows "affiliated w'"
proof (cases e)
  case (UpdJoinRoom s c)
  with assms show ?thesis by (auto dest: joinRoom_affiliated)
next
  case (UpdCreateRoom s tape)
  with assms show ?thesis by (auto dest: createRoom_affiliated)
next
  case (UpdUpdateWishlist s wl)
  with assms show ?thesis by (auto dest: updateWishlist_affiliated)
next
  case (UpdDisconnect s)
  with assms show ?thesis by (auto dest: upd_disconnect_affiliated)
next
  case (ChatSendMessage s p)
  with assms show ?thesis by (auto simp: affiliated_def sendMessage_def split: payload.splits)
qed (use assms in \<open>auto simp: affiliated_def chat_connection_def chat_setName_def
      chat_generateCode_def joinVoiceRoom_def chat_disconnect_def setID_def upd_setName_def
      upd_connection_def members_join Let_def\<close>)

lemma reachable_no_empty_room: "reachable w \<Longrightarrow> no_empty_room w"
proof (induction rule: reachable.induct)
  case reachable_init
  show ?case by (simp add: no_empty_room_def init_def)
next
  case (reachable_step w e w' out)
  then show ?case by (blast intro: step_no_empty_room)
qed

lemma reachable_affiliated: "reachable w \<Longrightarrow> affiliated w"
proof (induction rule: reachable.induct)
  case reachable_init
  show ?case by (simp add: affiliated_def init_def)
next
  case (reachable_step w e w' out)
  then show ?case by (blast intro: step_affiliated)
qed

subsection \<open>The example runs\<close>

lemma gen_tape_inc0: "generateRoomCode (tape_inc 0) ROOM_CODE_LENGTH = ''AAAAAA''"
  by (simp add: generateRoomCode_def ROOM_CODE_LENGTH_def alphabet_def tape_inc_def upt_rec)

lemma gen_tape_inc1: "generateRoomCode (tape_inc (Suc 0)) ROOM_CODE_LENGTH = ''BBBBBB''"
  by (simp add: generateRoomCode_def ROOM_CODE_LENGTH_def alphabet_def tape_inc_def upt_rec)

lemma ex_created_step:
  "createRoom ex_connected ''a'' tape_inc = Some (ex_created, [Emit Update {''a''} (GenerateCode ''AAAAAA'')])"
proof -
  have "newCode (gameRooms ex_connected) tape_inc 0 = Some ''AAAAAA''"
    by (subst newCode.simps) (simp add: gen_tape_inc0 ex_connected_def upd_connection_def init_def)
  then show ?thesis by (simp add: createRoom_def ex_created_def)
qed

lemma reachable_ex_connected: "reachable ex_connected"
proof (rule reachable_step[OF reachable_init])
  show "enabled init (UpdConnect ''a'' ''Player7'')" by (simp add: init_def)
  show "step init (UpdConnect ''a'' ''Player7'') = Some (Inr (ex_connected, []))"
    by (simp add: ex_connected_def)
qed

lemma reachable_ex_created: "reachable ex_created"
proof (rule reachable_step[OF reachable_ex_connected])
  show "enabled ex_connected (UpdCreateRoom ''a'' tape_inc)"
    by (simp add: ex_connected_def upd_connection_def)
  show "step ex_connected (UpdCreateRoom ''a'' tape_inc) = Some (Inr (ex_created, [Emit Update {''a''} (GenerateCode ''AAAAAA'')]))"
    by (simp add: ex_created_step)
qed

lemma reachable_ex_joined: "reachable ex_joined"
proof -
  have c: "reachable (upd_connection ex_created ''b'' ''Player8'')"
  proof (rule reachable_step[OF reachable_ex_created])
    show "enabled ex_created (UpdConnect ''b'' ''Player8'')"
      by (simp add: ex_created_def ex_connected_def upd_connection_def init_def
          addPlayer_def newGameRoom_def)
    show "step ex_created (UpdConnect ''b'' ''Player8'') = Some (Inr (upd_connection ex_created ''b'' ''Player8'', []))"
      by simp
  qed
  show ?thesis
  proof (rule reachable_step[OF c])
    show "enabled (upd_connection ex_created ''b'' ''Player8'') (UpdJoinRoom ''b'' ''AAAAAA'')"
      by (simp add: upd_connection_def)
    show "step (upd_connection ex_created ''b'' ''Player8'') (UpdJoinRoom ''b'' ''AAAAAA'')
          = Some (Inr (ex_joined, snd (joinRoom (upd_connection ex_created ''b'' ''Player8'') ''b'' ''AAAAAA'')))"
      by (simp add: ex_joined_def)
  qed
qed

lemma ex_joined_sockets: "updSockets ex_joined = {''a'', ''b''}"
  by (auto simp: ex_joined_def joinRoom_def ex_created_def ex_connected_def upd_connection_def init_def split: option.splits)

lemma reachable_ex_listed: "reachable ex_listed"
proof (rule reachable_step[OF reachable_ex_joined])
  show "enabled ex_joined (UpdUpdateWishlist ''a'' [''milk''])"
    by (simp add: ex_joined_sockets)
  show "step ex_joined (UpdUpdateWishlist ''a'' [''milk'']) = Some (Inr (ex_listed, snd (updateWishlist ex_joined ''a'' [''milk''])))"
    by (simp add: ex_listed_def)
qed

lemma ex_created_rooms: "gameRooms ex_created = [''AAAAAA'' \<mapsto> \<lparr>code = ''AAAAAA'', players = {|''a''|}, wishlist = None\<rparr>]"
  by (simp add: ex_created_def ex_connected_def upd_connection_def init_def addPlayer_def newGameRoom_def)

lemma ex_listed_rooms:
  "gameRooms ex_listed = [''AAAAAA'' \<mapsto> \<lparr>code = ''AAAAAA'', players = {|''b'', ''a''|}, wishlist = Some [''milk'']\<rparr>]"
  by (simp add: ex_listed_def updateWishlist_def ex_joined_def joinRoom_def ex_created_def
      ex_connected_def upd_connection_def init_def addPlayer_def newGameRoom_def)


lemma disconnecting_returns:
  assumes "reachable w" "s \<in> updSockets w"
  shows "\<exists>w' out. disconnecting w s = Inr (w', out)"
proof (cases "roomCode (updData w s) = ''''")
  case True
  then show ?thesis by (simp add: disconnecting_def)
next
  case False
  from affiliatedD[OF reachable_affiliated[OF assms(1)] assms(2) False]
  obtain r where "gameRooms w (roomCode (updData w s)) = Some r" by blast
  with False show ?thesis by (simp add: disconnecting_def)
qed

lemma ex_chat_rooms:
  "chatRooms ex_chat = [''a'' \<mapsto> [''a''], ''b'' \<mapsto> [''b''], ''R1'' \<mapsto> [''a''], ''R2'' \<mapsto> [''b'']]"
  by (simp add: ex_chat_def chat_generateCode_def chat_connection_def init_def join_def members_def)

lemma players_joinedD:
  "players_joined w \<Longrightarrow> gameRooms w c = Some r \<Longrightarrow> t |\<in>| players r \<Longrightarrow> t \<in> updSockets w \<Longrightarrow>
   t \<in> set (members (updRooms w) c)"
  unfolding players_joined_def by blast

lemma step_players_joined:
  assumes inv: "players_joined w" and en: "enabled w e" and st: "step w e = Some (Inr (w', out))"
  shows "players_joined w'"
  unfolding players_joined_def
proof (intro allI impI, elim conjE)
  fix c r t
  assume r: "gameRooms w' c = Some r" and t: "t |\<in>| players r" and conn: "t \<in> updSockets w'"
  show "t \<in> set (members (updRooms w') c)"
  proof (cases e)
    case (UpdConnect s n0)
    with st en r t conn players_joinedD[OF inv, of c r t] show ?thesis
      by (auto simp: upd_connection_def members_join)
  next
    case (UpdJoinRoom s k)
    with st r t conn players_joinedD[OF inv, of c _ t] show ?thesis
      by (auto simp: joinRoom_def addPlayer_def members_join split: option.splits if_splits)
  next
    case (UpdCreateRoom s tape)
    with st r t conn players_joinedD[OF inv, of c _ t] show ?thesis
      by (auto simp: createRoom_def addPlayer_def newGameRoom_def members_join split: option.splits if_splits)
  next
    case (UpdUpdateWishlist s wl)
    with st r t conn players_joinedD[OF inv, of c _ t] show ?thesis
      by (auto simp: updateWishlist_def split: option.splits if_splits)
  next
    case (UpdDisconnect s)
    with st r t conn players_joinedD[OF inv, of c _ t] show ?thesis
      by (auto simp: upd_disconnect_def disconnecting_def removePlayer_def members_leaveAll
          split: option.splits if_splits sum.splits)
  next
    case (ChatSendMessage s p)
    with st r t conn players_joinedD[OF inv, of c r t] show ?thesis
      by (auto simp: sendMessage_def split: payload.splits)
  qed (use st r t conn players_joinedD[OF inv, of c r t] in \<open>auto simp: chat_connection_def chat_setName_def
      chat_generateCode_def joinVoiceRoom_def chat_disconnect_def setID_def upd_setName_def Let_def\<close>)
qed

lemma reachable_players_joined: "reachable w \<Longrightarrow> players_joined w"
proof (induction rule: reachable.induct)
  case reachable_init
  show ?case by (simp add: players_joined_def init_def)
next
  case (reachable_step w e w' out)
  then show ?case by (blast intro: step_players_joined)
qed

lemma affiliation_Some: "affiliation w s = Some c \<longleftrightarrow> roomCode (updData w s) = c \<and> c \<noteq> ''''"
  by (auto simp: affiliation_def)

lemma affiliation_None: "affiliation w s = None \<longleftrightarrow> roomCode (updData w s) = ''''"
  by (auto simp: affiliation_def)

lemma ex_joined_data:
  "gameRooms ex_joined = [''AAAAAA'' \<mapsto> \<lparr>code = ''AAAAAA'', players = {|''b'', ''a''|}, wishlist = None\<rparr>]"
  "roomCode (updData ex_joined ''a'') = ''AAAAAA''"
  "roomCode (updData ex_joined ''b'') = ''AAAAAA''"
  "members (updRooms ex_joined) ''AAAAAA'' = [''a'', ''b'']"
  by (simp_all add: ex_joined_def joinRoom_def ex_created_def
      ex_connected_def upd_connection_def init_def addPlayer_def newGameRoom_def join_def members_def)

lemma numPlayers_removePlayer:
  "s |\<in>| players room \<Longrightarrow> Suc (numPlayers (removePlayer room s)) = numPlayers room"
proof -
  assume m: "s |\<in>| players room"
  have "players (removePlayer room s) = players room |-| {|s|}" by (simp add: removePlayer_def)
  with fcard_Suc_fminus1[OF m] show ?thesis by (simp only: numPlayers_def)
qed

lemma numPlayers_add_remove:
  "s |\<notin>| players r \<Longrightarrow> numPlayers (removePlayer (addPlayer r s) s) = numPlayers r"
  by (simp add: numPlayers_def removePlayer_def addPlayer_def)

lemma step_keys:
  assumes "\<forall>c. gameRooms w c \<noteq> None \<longrightarrow> length c = ROOM_CODE_LENGTH" "step w e = Some (Inr (w', out))"
  shows "\<forall>c. gameRooms w' c \<noteq> None \<longrightarrow> length c = ROOM_CODE_LENGTH"
proof (cases e)
  case (UpdJoinRoom s c)
  with assms show ?thesis by (auto simp: joinRoom_def split: option.splits if_splits)
next
  case (UpdCreateRoom s tape)
  with assms show ?thesis
    by (auto simp: createRoom_def dest: newCode_length split: option.splits if_splits)
next
  case (UpdUpdateWishlist s wl)
  with assms show ?thesis by (auto simp: updateWishlist_def split: option.splits if_splits)
next
  case (UpdDisconnect s)
  with assms show ?thesis
    by (auto simp: upd_disconnect_def disconnecting_def split: option.splits if_splits sum.splits)
next
  case (ChatSendMessage s p)
  with assms show ?thesis by (auto simp: sendMessage_def split: payload.splits)
qed (use assms in \<open>auto simp: chat_connection_def chat_setName_def
      chat_generateCode_def joinVoiceRoom_def chat_disconnect_def setID_def upd_setName_def
      upd_connection_def Let_def\<close>)

lemma reachable_keys: "reachable w \<Longrightarrow> \<forall>c. gameRooms w c \<noteq> None \<longrightarrow> length c = ROOM_CODE_LENGTH"
proof (induction rule: reachable.induct)
  case reachable_init
  show ?case by (simp add: init_def)
next
  case (reachable_step w e w' out)
  then show ?case using step_keys by blast
qed

lemma ex_created_data:
  "roomCode (updData ex_created ''a'') = ''AAAAAA''"
  "updSockets ex_created = {''a''}"
  "members (updRooms ex_created) ''AAAAAA'' = [''a'']"
  by (simp_all add: ex_created_def ex_connected_def upd_connection_def init_def join_def members_def)

lemma ex_recreated_step:
  "createRoom ex_created ''a'' tape_inc = Some (ex_recreated, [Emit Update {''a''} (GenerateCode ''BBBBBB'')])"
proof -
  have "newCode (gameRooms ex_created) tape_inc 0 = Some ''BBBBBB''"
    using newCode_returns[of "Suc 0" "gameRooms ex_created" tape_inc 0]
    by (simp add: gen_tape_inc0 gen_tape_inc1 ex_created_rooms)
  then show ?thesis by (simp add: createRoom_def ex_recreated_def)
qed

lemma ex_recreated_data: "roomCode (updData ex_recreated ''a'') = ''BBBBBB''"
  by (simp add: ex_recreated_def)

lemma createRoom_SomeD:
  assumes "createRoom w s tape = Some (w', out)"
  obtains c where "newCode (gameRooms w) tape 0 = Some c"
    "w' = w\<lparr>updData := (updData w)(s := (updData w s)\<lparr>roomCode := c\<rparr>),
            gameRooms := (gameRooms w)(c \<mapsto> addPlayer (newGameRoom c) s),
            updRooms := join (updRooms w) s c\<rparr>"
    "out = [Emit Update {s} (GenerateCode c)]"
  using assms by (auto simp: createRoom_def split: option.splits)

lemma codes_append: "codes (xs @ ys) = codes xs @ codes ys"
  by (simp add: codes_def)

lemma createRooms_distinct:
  "createRooms w reqs = Some (w', out) \<Longrightarrow>
   distinct (codes out) \<and> length (codes out) = length reqs
   \<and> (\<forall>c\<in>set (codes out). length c = ROOM_CODE_LENGTH \<and> gameRooms w c = None \<and> gameRooms w' c \<noteq> None)
   \<and> (\<forall>c. gameRooms w c \<noteq> None \<longrightarrow> gameRooms w' c \<noteq> None)"
proof (induction reqs arbitrary: w w' out)
  case Nil
  then show ?case by (simp add: codes_def)
next
  case (Cons req reqs)
  obtain s tape where req: "req = (s, tape)" by (cases req)
  from Cons.prems req obtain w1 out1 out2 where
    one: "createRoom w s tape = Some (w1, out1)" and
    rest: "createRooms w1 reqs = Some (w', out2)" and out: "out = out1 @ out2"
    by (auto split: option.splits)
  from one obtain c where c: "newCode (gameRooms w) tape 0 = Some c"
    and w1: "gameRooms w1 = (gameRooms w)(c \<mapsto> addPlayer (newGameRoom c) s)"
    and out1: "out1 = [Emit Update {s} (GenerateCode c)]"
    by (auto elim!: createRoom_SomeD)
  from c have fresh: "gameRooms w c = None" and len: "length c = ROOM_CODE_LENGTH"
    by (auto dest: newCode_fresh newCode_length)
  note IH = Cons.IH[OF rest]
  have cs: "codes out = c # codes out2" by (simp add: out out1 codes_append) (simp add: codes_def)
  have notin: "c \<notin> set (codes out2)"
  proof
    assume "c \<in> set (codes out2)"
    with IH have "gameRooms w1 c = None" by blast
    with w1 show False by simp
  qed
  have mono: "\<forall>k. gameRooms w k \<noteq> None \<longrightarrow> gameRooms w' k \<noteq> None"
    using IH w1 by auto
  have "gameRooms w' c \<noteq> None" using IH w1 by auto
  moreover have "\<forall>k\<in>set (codes out2). gameRooms w k = None"
  proof
    fix k assume "k \<in> set (codes out2)"
    with IH have "gameRooms w1 k = None" by blast
    with w1 show "gameRooms w k = None" by (auto split: if_splits)
  qed
  ultimately show ?case using IH notin fresh len mono by (auto simp: cs)
qed

lemma ex_two_rooms:
  "createRooms ex_connected [(''a'', tape_inc), (''a'', tape_inc)] =
     Some (ex_recreated, [Emit Update {''a''} (GenerateCode ''AAAAAA''), Emit Update {''a''} (GenerateCode ''BBBBBB'')])"
  by (simp add: ex_created_step ex_recreated_step)



lemma reachable_chat_connection:
  "reachable w \<Longrightarrow> s \<notin> chatSockets w \<Longrightarrow> reachable (chat_connection w s)"
  by (rule reachable_step[where e = "ChatConnect s" and out = "[]"]) simp_all

lemma reachable_chat_generateCode:
  "reachable w \<Longrightarrow> s \<in> chatSockets w \<Longrightarrow> reachable (fst (chat_generateCode w s c))"
  by (rule reachable_step[where e = "ChatGenerateCode s c" and out = "snd (chat_generateCode w s c)"]) simp_all


lemma chatSockets_simps:
  "chatSockets (chat_connection w s) = insert s (chatSockets w)"
  "chatSockets (fst (chat_generateCode w s c)) = chatSockets w"
  "chatSockets (fst (joinVoiceRoom w s c)) = chatSockets w"
  by (simp_all add: chat_connection_def chat_generateCode_def joinVoiceRoom_def Let_def)

lemma reachable_ex_chat: "reachable ex_chat"
  unfolding ex_chat_def
  by (intro reachable_chat_generateCode reachable_chat_connection reachable_init)
    (simp_all add: chatSockets_simps init_def)








section \<open>The claims\<close>

text \<open>
  C1. The codes that a sequence of \<open>createRoom\<close> events acknowledges are pairwise
  distinct, one for each event, and each has the configured length, which is 6; none of
  them was a key of the registry before, and each is one afterwards. A single
  \<open>createRoom\<close> asks the generator again as long as its code is a key of the registry:
  when the first unused code is that of call \<open>n\<close>, the handler returns with exactly that
  code, and whenever it returns, the room it created is stored under the acknowledged
  code, new and with the caller as its only player.
\<close>

theorem createRoom_codes:
  "(createRooms w reqs = Some (w', out) \<longrightarrow>
      distinct (codes out) \<and> length (codes out) = length reqs
      \<and> (\<forall>c\<in>set (codes out). length c = ROOM_CODE_LENGTH \<and> gameRooms w c = None \<and> gameRooms w' c \<noteq> None))
   \<and> ((\<forall>i<n. gameRooms w (generateRoomCode (tape i) ROOM_CODE_LENGTH) \<noteq> None)
        \<and> gameRooms w (generateRoomCode (tape n) ROOM_CODE_LENGTH) = None \<longrightarrow>
      createRoom w s tape =
        Some (w\<lparr>updData := (updData w)(s := (updData w s)\<lparr>roomCode := generateRoomCode (tape n) ROOM_CODE_LENGTH\<rparr>),
                gameRooms := (gameRooms w)(generateRoomCode (tape n) ROOM_CODE_LENGTH \<mapsto>
                               addPlayer (newGameRoom (generateRoomCode (tape n) ROOM_CODE_LENGTH)) s),
                updRooms := join (updRooms w) s (generateRoomCode (tape n) ROOM_CODE_LENGTH)\<rparr>,
              [Emit Update {s} (GenerateCode (generateRoomCode (tape n) ROOM_CODE_LENGTH))]))
   \<and> (createRoom w s tape = Some (w1, out1) \<longrightarrow>
        (\<exists>c. out1 = [Emit Update {s} (GenerateCode c)] \<and> length c = ROOM_CODE_LENGTH
           \<and> gameRooms w c = None \<and> gameRooms w1 c = Some (addPlayer (newGameRoom c) s)))
   \<and> ROOM_CODE_LENGTH = 6"
proof (intro conjI impI)
  assume "createRooms w reqs = Some (w', out)"
  from createRooms_distinct[OF this]
  show "distinct (codes out)" "length (codes out) = length reqs"
    "\<forall>c\<in>set (codes out). length c = ROOM_CODE_LENGTH \<and> gameRooms w c = None \<and> gameRooms w' c \<noteq> None"
    by blast+
next
  assume a: "(\<forall>i<n. gameRooms w (generateRoomCode (tape i) ROOM_CODE_LENGTH) \<noteq> None)
        \<and> gameRooms w (generateRoomCode (tape n) ROOM_CODE_LENGTH) = None"
  have "newCode (gameRooms w) tape 0 = Some (generateRoomCode (tape (0 + n)) ROOM_CODE_LENGTH)"
    by (rule newCode_returns) (use a in simp_all)
  then show "createRoom w s tape =
        Some (w\<lparr>updData := (updData w)(s := (updData w s)\<lparr>roomCode := generateRoomCode (tape n) ROOM_CODE_LENGTH\<rparr>),
                gameRooms := (gameRooms w)(generateRoomCode (tape n) ROOM_CODE_LENGTH \<mapsto>
                               addPlayer (newGameRoom (generateRoomCode (tape n) ROOM_CODE_LENGTH)) s),
                updRooms := join (updRooms w) s (generateRoomCode (tape n) ROOM_CODE_LENGTH)\<rparr>,
              [Emit Update {s} (GenerateCode (generateRoomCode (tape n) ROOM_CODE_LENGTH))])"
    by (simp add: createRoom_def)
next
  assume "createRoom w s tape = Some (w1, out1)"
  then obtain c where c: "newCode (gameRooms w) tape 0 = Some c"
    and w1: "gameRooms w1 = (gameRooms w)(c \<mapsto> addPlayer (newGameRoom c) s)"
    and out1: "out1 = [Emit Update {s} (GenerateCode c)]"
    by (auto elim!: createRoom_SomeD)
  from c have "gameRooms w c = None" "length c = ROOM_CODE_LENGTH"
    by (auto dest: newCode_fresh newCode_length)
  with w1 out1 show "\<exists>c. out1 = [Emit Update {s} (GenerateCode c)] \<and> length c = ROOM_CODE_LENGTH
           \<and> gameRooms w c = None \<and> gameRooms w1 c = Some (addPlayer (newGameRoom c) s)"
    by auto
next
  show "ROOM_CODE_LENGTH = 6" by (simp add: ROOM_CODE_LENGTH_def)
qed

theorem createRoom_codes_witness:
  "createRooms ex_connected [(''a'', tape_inc), (''a'', tape_inc)] =
     Some (ex_recreated, [Emit Update {''a''} (GenerateCode ''AAAAAA''), Emit Update {''a''} (GenerateCode ''BBBBBB'')])
   \<and> codes [Emit Update {''a''} (GenerateCode ''AAAAAA''), Emit Update {''a''} (GenerateCode ''BBBBBB'')] = [''AAAAAA'', ''BBBBBB'']
   \<and> distinct [''AAAAAA'', ''BBBBBB'']
   \<and> length ''AAAAAA'' = ROOM_CODE_LENGTH \<and> gameRooms ex_connected ''AAAAAA'' = None \<and> gameRooms ex_recreated ''AAAAAA'' \<noteq> None
   \<and> length ''BBBBBB'' = ROOM_CODE_LENGTH \<and> gameRooms ex_connected ''BBBBBB'' = None \<and> gameRooms ex_recreated ''BBBBBB'' \<noteq> None
   \<and> gameRooms ex_created (generateRoomCode (tape_inc 0) ROOM_CODE_LENGTH) \<noteq> None
   \<and> gameRooms ex_created (generateRoomCode (tape_inc (Suc 0)) ROOM_CODE_LENGTH) = None
   \<and> createRoom ex_created ''a'' tape_inc = Some (ex_recreated, [Emit Update {''a''} (GenerateCode ''BBBBBB'')])
   \<and> (\<exists>c. [Emit Update {''a''} (GenerateCode ''BBBBBB'')] = [Emit Update {''a''} (GenerateCode c)] \<and> length c = ROOM_CODE_LENGTH
           \<and> gameRooms ex_created c = None \<and> gameRooms ex_recreated c = Some (addPlayer (newGameRoom c) ''a''))"
proof -
  let ?out = "[Emit Update {''a''} (GenerateCode ''AAAAAA''), Emit Update {''a''} (GenerateCode ''BBBBBB'')]"
  let ?out1 = "[Emit Update {''a''} (GenerateCode ''BBBBBB'')]"
  note t = createRoom_codes[of ex_connected "[(''a'', tape_inc), (''a'', tape_inc)]" ex_recreated ?out
      "Suc 0" tape_inc "''a''" ex_recreated ?out1]
  note u = createRoom_codes[of ex_created "[]" ex_created "[]"
      "Suc 0" tape_inc "''a''" ex_recreated ?out1]
  have h1: "createRooms ex_connected [(''a'', tape_inc), (''a'', tape_inc)] = Some (ex_recreated, ?out)"
    by (rule ex_two_rooms)
  have cs: "codes ?out = [''AAAAAA'', ''BBBBBB'']" by (simp add: codes_def)
  from t h1 have c1: "distinct (codes ?out)"
    and c2: "\<forall>c\<in>set (codes ?out). length c = ROOM_CODE_LENGTH \<and> gameRooms ex_connected c = None \<and> gameRooms ex_recreated c \<noteq> None"
    by blast+
  have h2: "(\<forall>i<Suc 0. gameRooms ex_created (generateRoomCode (tape_inc i) ROOM_CODE_LENGTH) \<noteq> None)
     \<and> gameRooms ex_created (generateRoomCode (tape_inc (Suc 0)) ROOM_CODE_LENGTH) = None"
    by (simp add: gen_tape_inc0 gen_tape_inc1 ex_created_rooms)
  with u have c3: "createRoom ex_created ''a'' tape_inc =
        Some (ex_created\<lparr>updData := (updData ex_created)(''a'' := (updData ex_created ''a'')\<lparr>roomCode := generateRoomCode (tape_inc (Suc 0)) ROOM_CODE_LENGTH\<rparr>),
                gameRooms := (gameRooms ex_created)(generateRoomCode (tape_inc (Suc 0)) ROOM_CODE_LENGTH \<mapsto>
                               addPlayer (newGameRoom (generateRoomCode (tape_inc (Suc 0)) ROOM_CODE_LENGTH)) ''a''),
                updRooms := join (updRooms ex_created) ''a'' (generateRoomCode (tape_inc (Suc 0)) ROOM_CODE_LENGTH)\<rparr>,
              [Emit Update {''a''} (GenerateCode (generateRoomCode (tape_inc (Suc 0)) ROOM_CODE_LENGTH))])"
    by blast
  then have c3': "createRoom ex_created ''a'' tape_inc = Some (ex_recreated, ?out1)"
    by (simp add: gen_tape_inc1 ex_recreated_def)
  with u have c4: "\<exists>c. ?out1 = [Emit Update {''a''} (GenerateCode c)] \<and> length c = ROOM_CODE_LENGTH
           \<and> gameRooms ex_created c = None \<and> gameRooms ex_recreated c = Some (addPlayer (newGameRoom c) ''a'')"
    by blast
  from c2 have c2a: "length ''AAAAAA'' = ROOM_CODE_LENGTH \<and> gameRooms ex_connected ''AAAAAA'' = None \<and> gameRooms ex_recreated ''AAAAAA'' \<noteq> None"
    and c2b: "length ''BBBBBB'' = ROOM_CODE_LENGTH \<and> gameRooms ex_connected ''BBBBBB'' = None \<and> gameRooms ex_recreated ''BBBBBB'' \<noteq> None"
    by (simp_all only: cs list.set ball_simps insert_iff) blast+
  from c1 have c1': "distinct [''AAAAAA'', ''BBBBBB'']" by (simp only: cs)
  from h2 have h2a: "gameRooms ex_created (generateRoomCode (tape_inc 0) ROOM_CODE_LENGTH) \<noteq> None"
    and h2b: "gameRooms ex_created (generateRoomCode (tape_inc (Suc 0)) ROOM_CODE_LENGTH) = None"
    by simp_all
  from h1 cs c1' c2a c2b h2a h2b c3' c4 show ?thesis by blast
qed

text \<open>
  C2. A \<open>joinRoom\<close> whose code is not a key of the registry emits \<open>invalidRoomCode\<close> to
  the calling connection only and leaves the whole state as it was: the registry and the
  caller's stored room code are unchanged, whatever the state before.
\<close>

theorem joinRoom_absent:
  "gameRooms w c = None \<Longrightarrow>
   joinRoom w s c = (w, [Emit Update {s} (InvalidRoomCode ''Not a valid room code.'')])"
  by (simp add: joinRoom_def)

theorem joinRoom_absent_witness:
  "gameRooms ex_created ''BBBBBB'' = None \<and>
   joinRoom ex_created ''a'' ''BBBBBB'' = (ex_created, [Emit Update {''a''} (InvalidRoomCode ''Not a valid room code.'')])"
proof -
  have h: "gameRooms ex_created ''BBBBBB'' = None" by (simp add: ex_created_rooms)
  from h joinRoom_absent[OF h] show ?thesis by simp
qed

text \<open>
  C3. A \<open>joinRoom\<close> whose code is a key of the registry stores the code as the caller's
  room code, calls \<open>addPlayer\<close> on that room with the caller, acknowledges with
  \<open>generateCode\<close> carrying the code, and, when the room has a wishlist (one that is set
  and not empty, which is the handler's test for "exists"), sends it in \<open>wishlistUpdated\<close>;
  every one of these emissions goes to the caller alone.
\<close>

theorem joinRoom_present:
  "gameRooms w c = Some r \<Longrightarrow>
   joinRoom w s c =
     (w\<lparr>updData := (updData w)(s := (updData w s)\<lparr>roomCode := c\<rparr>),
        gameRooms := (gameRooms w)(c \<mapsto> addPlayer r s),
        updRooms := join (updRooms w) s c\<rparr>,
      Emit Update {s} (GenerateCode c) #
      (case wishlist r of
         None \<Rightarrow> []
       | Some wl \<Rightarrow> (if wl = [] then [] else [Emit Update {s} (WishlistUpdated wl)])))
   \<and> roomCode (updData (fst (joinRoom w s c)) s) = c
   \<and> (c \<noteq> '''' \<longrightarrow> affiliation (fst (joinRoom w s c)) s = Some c)
   \<and> s |\<in>| players (addPlayer r s)"
  by (auto simp: joinRoom_def addPlayer_def affiliation_def split: option.splits)

theorem joinRoom_present_witness:
  "gameRooms ex_listed ''AAAAAA'' = Some \<lparr>code = ''AAAAAA'', players = {|''b'', ''a''|}, wishlist = Some [''milk'']\<rparr>
   \<and> snd (joinRoom ex_listed ''c'' ''AAAAAA'') =
        [Emit Update {''c''} (GenerateCode ''AAAAAA''), Emit Update {''c''} (WishlistUpdated [''milk''])]
   \<and> gameRooms (fst (joinRoom ex_listed ''c'' ''AAAAAA'')) ''AAAAAA'' =
        Some \<lparr>code = ''AAAAAA'', players = {|''c'', ''b'', ''a''|}, wishlist = Some [''milk'']\<rparr>
   \<and> ''AAAAAA'' \<noteq> '''' \<and> affiliation (fst (joinRoom ex_listed ''c'' ''AAAAAA'')) ''c'' = Some ''AAAAAA''"
proof -
  have h: "gameRooms ex_listed ''AAAAAA'' = Some \<lparr>code = ''AAAAAA'', players = {|''b'', ''a''|}, wishlist = Some [''milk'']\<rparr>"
    by (simp add: ex_listed_rooms)
  note t = joinRoom_present[OF h, of "''c''"]
  from t have e: "joinRoom ex_listed ''c'' ''AAAAAA'' =
     (ex_listed\<lparr>updData := (updData ex_listed)(''c'' := (updData ex_listed ''c'')\<lparr>roomCode := ''AAAAAA''\<rparr>),
        gameRooms := (gameRooms ex_listed)(''AAAAAA'' \<mapsto> \<lparr>code = ''AAAAAA'', players = {|''c'', ''b'', ''a''|}, wishlist = Some [''milk'']\<rparr>),
        updRooms := join (updRooms ex_listed) ''c'' ''AAAAAA''\<rparr>,
      [Emit Update {''c''} (GenerateCode ''AAAAAA''), Emit Update {''c''} (WishlistUpdated [''milk''])])"
    by (simp add: addPlayer_def)
  have ne: "''AAAAAA'' \<noteq> ''''" by simp
  with t have aff: "affiliation (fst (joinRoom ex_listed ''c'' ''AAAAAA'')) ''c'' = Some ''AAAAAA''"
    by blast
  have 1: "snd (joinRoom ex_listed ''c'' ''AAAAAA'') =
        [Emit Update {''c''} (GenerateCode ''AAAAAA''), Emit Update {''c''} (WishlistUpdated [''milk''])]"
    by (simp add: e)
  have 2: "gameRooms (fst (joinRoom ex_listed ''c'' ''AAAAAA'')) ''AAAAAA'' =
        Some \<lparr>code = ''AAAAAA'', players = {|''c'', ''b'', ''a''|}, wishlist = Some [''milk'']\<rparr>"
    by (simp add: e)
  from h 1 2 ne aff show ?thesis by blast
qed

text \<open>
  C10. An \<open>updateWishlist\<close> from a session whose stored room code is not empty but is
  no key of the registry does nothing: the state is as before (no room changes) and there
  is no emission at all, so neither \<open>wishlistUpdated\<close> nor an error reaches anyone.
\<close>

theorem updateWishlist_stale:
  "roomCode (updData w s) \<noteq> '''' \<Longrightarrow> gameRooms w (roomCode (updData w s)) = None \<Longrightarrow>
   updateWishlist w s wl = (w, [])"
  by (simp add: updateWishlist_def)

theorem updateWishlist_stale_witness:
  "roomCode (updData (init\<lparr>updData := (updData init)(''a'' := \<lparr>name = ''Player7'', roomCode = ''ZZZZZZ''\<rparr>)\<rparr>) ''a'') \<noteq> ''''
   \<and> gameRooms (init\<lparr>updData := (updData init)(''a'' := \<lparr>name = ''Player7'', roomCode = ''ZZZZZZ''\<rparr>)\<rparr>)
        (roomCode (updData (init\<lparr>updData := (updData init)(''a'' := \<lparr>name = ''Player7'', roomCode = ''ZZZZZZ''\<rparr>)\<rparr>) ''a'')) = None
   \<and> updateWishlist (init\<lparr>updData := (updData init)(''a'' := \<lparr>name = ''Player7'', roomCode = ''ZZZZZZ''\<rparr>)\<rparr>) ''a'' [''milk'']
      = (init\<lparr>updData := (updData init)(''a'' := \<lparr>name = ''Player7'', roomCode = ''ZZZZZZ''\<rparr>)\<rparr>, [])"
proof -
  let ?w = "init\<lparr>updData := (updData init)(''a'' := \<lparr>name = ''Player7'', roomCode = ''ZZZZZZ''\<rparr>)\<rparr>"
  have h1: "roomCode (updData ?w ''a'') \<noteq> ''''" by simp
  have h2: "gameRooms ?w (roomCode (updData ?w ''a'')) = None" by (simp add: init_def)
  from h1 h2 updateWishlist_stale[OF h1 h2, of "[''milk'']"] show ?thesis by blast
qed

text \<open>
  C9. The handlers are not total: \<open>sendMessage\<close> destructures its argument, and a client
  that emits the event without an argument makes the handler throw a \<open>TypeError\<close>
  that nothing catches.
\<close>

theorem sendMessage_undefined_throws:
  "sendMessage w s Undefined = Inl TypeError \<and> step w (ChatSendMessage s Undefined) = Some (Inl TypeError)"
  by (simp add: sendMessage_def)

text \<open>
  C4. An \<open>updateWishlist\<close> from an unaffiliated session changes nothing and emits
  nothing. From a session in room \<open>c\<close>, in any reachable state, it replaces the room's
  wishlist by the given items and emits them once, to the transport's room \<open>c\<close>; the
  sender is among the recipients, and so is every connected session affiliated to \<open>c\<close>
  and every connected player of the room. A read that follows (the catch-up of a later
  \<open>joinRoom\<close>) carries exactly the items written.
\<close>

theorem updateWishlist_spec:
  "(affiliation w s = None \<longrightarrow> updateWishlist w s wl = (w, []))
   \<and> (reachable w \<and> s \<in> updSockets w \<and> affiliation w s = Some c \<longrightarrow>
       (\<exists>room. gameRooms w c = Some room
          \<and> updateWishlist w s wl =
              (w\<lparr>gameRooms := (gameRooms w)(c \<mapsto> room\<lparr>wishlist := Some wl\<rparr>)\<rparr>,
               [Emit Update (set (members (updRooms w) c)) (WishlistUpdated wl)])
          \<and> s \<in> set (members (updRooms w) c)
          \<and> (\<forall>t. t \<in> updSockets w \<and> (affiliation w t = Some c \<or> t |\<in>| players room) \<longrightarrow>
                 t \<in> set (members (updRooms w) c))
          \<and> snd (joinRoom (fst (updateWishlist w s wl)) t c) =
              Emit Update {t} (GenerateCode c) #
              (if wl = [] then [] else [Emit Update {t} (WishlistUpdated wl)])))"
proof (intro conjI impI)
  assume "affiliation w s = None"
  then show "updateWishlist w s wl = (w, [])"
    by (simp add: affiliation_None updateWishlist_def)
next
  assume a: "reachable w \<and> s \<in> updSockets w \<and> affiliation w s = Some c"
  then have rc: "roomCode (updData w s) = c" "c \<noteq> ''''" by (simp_all add: affiliation_Some)
  from a have aff: "affiliated w" and pj: "players_joined w"
    by (simp_all add: reachable_affiliated reachable_players_joined)
  from affiliatedD[OF aff, of s] a rc obtain room where
    room: "gameRooms w c = Some room" and sm: "s \<in> set (members (updRooms w) c)" by auto
  have upd: "updateWishlist w s wl =
              (w\<lparr>gameRooms := (gameRooms w)(c \<mapsto> room\<lparr>wishlist := Some wl\<rparr>)\<rparr>,
               [Emit Update (set (members (updRooms w) c)) (WishlistUpdated wl)])"
    using rc room by (simp add: updateWishlist_def to_room_def)
  have all: "\<forall>t. t \<in> updSockets w \<and> (affiliation w t = Some c \<or> t |\<in>| players room) \<longrightarrow>
                 t \<in> set (members (updRooms w) c)"
  proof (intro allI impI, elim conjE disjE)
    fix t assume "t \<in> updSockets w" "affiliation w t = Some c"
    with affiliatedD[OF aff, of t] show "t \<in> set (members (updRooms w) c)"
      by (simp add: affiliation_Some)
  next
    fix t assume "t \<in> updSockets w" "t |\<in>| players room"
    with players_joinedD[OF pj room] show "t \<in> set (members (updRooms w) c)" by blast
  qed
  have rd: "snd (joinRoom (fst (updateWishlist w s wl)) t c) =
              Emit Update {t} (GenerateCode c) #
              (if wl = [] then [] else [Emit Update {t} (WishlistUpdated wl)])"
    by (simp add: upd joinRoom_def addPlayer_def)
  from room upd sm all rd
  show "\<exists>room. gameRooms w c = Some room
          \<and> updateWishlist w s wl =
              (w\<lparr>gameRooms := (gameRooms w)(c \<mapsto> room\<lparr>wishlist := Some wl\<rparr>)\<rparr>,
               [Emit Update (set (members (updRooms w) c)) (WishlistUpdated wl)])
          \<and> s \<in> set (members (updRooms w) c)
          \<and> (\<forall>t. t \<in> updSockets w \<and> (affiliation w t = Some c \<or> t |\<in>| players room) \<longrightarrow>
                 t \<in> set (members (updRooms w) c))
          \<and> snd (joinRoom (fst (updateWishlist w s wl)) t c) =
              Emit Update {t} (GenerateCode c) #
              (if wl = [] then [] else [Emit Update {t} (WishlistUpdated wl)])"
    by blast
qed

theorem updateWishlist_spec_witness:
  "affiliation ex_connected ''a'' = None \<and> updateWishlist ex_connected ''a'' [''milk''] = (ex_connected, [])
   \<and> reachable ex_joined \<and> ''a'' \<in> updSockets ex_joined \<and> affiliation ex_joined ''a'' = Some ''AAAAAA''
   \<and> snd (updateWishlist ex_joined ''a'' [''milk'']) = [Emit Update {''a'', ''b''} (WishlistUpdated [''milk''])]
   \<and> map_option wishlist (gameRooms (fst (updateWishlist ex_joined ''a'' [''milk''])) ''AAAAAA'') = Some (Some [''milk''])
   \<and> snd (joinRoom (fst (updateWishlist ex_joined ''a'' [''milk''])) ''c'' ''AAAAAA'') =
        [Emit Update {''c''} (GenerateCode ''AAAAAA''), Emit Update {''c''} (WishlistUpdated [''milk''])]"
proof -
  have h0: "affiliation ex_connected ''a'' = None"
    by (simp add: affiliation_def ex_connected_def upd_connection_def)
  have h1: "reachable ex_joined \<and> ''a'' \<in> updSockets ex_joined \<and> affiliation ex_joined ''a'' = Some ''AAAAAA''"
    by (simp add: reachable_ex_joined ex_joined_sockets affiliation_def ex_joined_data)
  note t = updateWishlist_spec[of ex_connected "''a''" "[''milk'']" "''AAAAAA''" "''c''"]
  from t h0 have c0: "updateWishlist ex_connected ''a'' [''milk''] = (ex_connected, [])" by blast
  note u = updateWishlist_spec[of ex_joined "''a''" "[''milk'']" "''AAAAAA''" "''c''"]
  from u h1 obtain room where room: "gameRooms ex_joined ''AAAAAA'' = Some room"
    and upd: "updateWishlist ex_joined ''a'' [''milk''] =
              (ex_joined\<lparr>gameRooms := (gameRooms ex_joined)(''AAAAAA'' \<mapsto> room\<lparr>wishlist := Some [''milk'']\<rparr>)\<rparr>,
               [Emit Update (set (members (updRooms ex_joined) ''AAAAAA'')) (WishlistUpdated [''milk''])])"
    and rd: "snd (joinRoom (fst (updateWishlist ex_joined ''a'' [''milk''])) ''c'' ''AAAAAA'') =
              Emit Update {''c''} (GenerateCode ''AAAAAA'') #
              (if [''milk''] = [] then [] else [Emit Update {''c''} (WishlistUpdated [''milk''])])"
    by blast
  have c1: "snd (updateWishlist ex_joined ''a'' [''milk'']) = [Emit Update {''a'', ''b''} (WishlistUpdated [''milk''])]"
    by (simp add: upd ex_joined_data)
  have c2: "map_option wishlist (gameRooms (fst (updateWishlist ex_joined ''a'' [''milk''])) ''AAAAAA'') = Some (Some [''milk''])"
    by (simp add: upd)
  have c3: "snd (joinRoom (fst (updateWishlist ex_joined ''a'' [''milk''])) ''c'' ''AAAAAA'') =
        [Emit Update {''c''} (GenerateCode ''AAAAAA''), Emit Update {''c''} (WishlistUpdated [''milk''])]"
    using rd by simp
  from h0 c0 h1 c1 c2 c3 show ?thesis by blast
qed

text \<open>
  C7. In every state a run can reach, no room of the registry has an empty member set,
  and every handler that completes keeps it so. The pre-disconnect step of a session
  affiliated to \<open>c\<close> finds the room, of which the session is a player, calls
  \<open>removePlayer\<close> on it, which lowers the member count by exactly one (back to the count
  before the \<open>addPlayer\<close> that made the connection a member), and removes \<open>c\<close> from the
  registry when the count has become zero; for an unaffiliated session it does nothing.
\<close>

theorem registry_invariant:
  "(reachable w \<longrightarrow> no_empty_room w)
   \<and> (no_empty_room w \<and> step w e = Some (Inr (w', out)) \<longrightarrow> no_empty_room w')
   \<and> (reachable w \<and> s \<in> updSockets w \<and> affiliation w s = Some c \<longrightarrow>
        (\<exists>room. gameRooms w c = Some room \<and> s |\<in>| players room
           \<and> Suc (numPlayers (removePlayer room s)) = numPlayers room
           \<and> disconnecting w s =
               Inr (w\<lparr>gameRooms := (if numPlayers (removePlayer room s) = 0
                                     then (gameRooms w)(c := None)
                                     else (gameRooms w)(c \<mapsto> removePlayer room s))\<rparr>, [])))
   \<and> (s |\<notin>| players r \<longrightarrow> numPlayers (removePlayer (addPlayer r s) s) = numPlayers r)
   \<and> (affiliation w s = None \<longrightarrow> disconnecting w s = Inr (w, []))"
proof (intro conjI impI)
  assume "reachable w" then show "no_empty_room w" by (rule reachable_no_empty_room)
next
  assume "no_empty_room w \<and> step w e = Some (Inr (w', out))"
  then show "no_empty_room w'" using step_no_empty_room by blast
next
  assume a: "reachable w \<and> s \<in> updSockets w \<and> affiliation w s = Some c"
  then have rc: "roomCode (updData w s) = c" "c \<noteq> ''''" by (simp_all add: affiliation_Some)
  from a have aff: "affiliated w" by (simp add: reachable_affiliated)
  from affiliatedD[OF aff, of s] a rc obtain room where
    room: "gameRooms w c = Some room" "s |\<in>| players room" by auto
  have d: "disconnecting w s =
               Inr (w\<lparr>gameRooms := (if numPlayers (removePlayer room s) = 0
                                     then (gameRooms w)(c := None)
                                     else (gameRooms w)(c \<mapsto> removePlayer room s))\<rparr>, [])"
    using rc room by (simp add: disconnecting_def)
  from room d numPlayers_removePlayer[OF room(2)]
  show "\<exists>room. gameRooms w c = Some room \<and> s |\<in>| players room
           \<and> Suc (numPlayers (removePlayer room s)) = numPlayers room
           \<and> disconnecting w s =
               Inr (w\<lparr>gameRooms := (if numPlayers (removePlayer room s) = 0
                                     then (gameRooms w)(c := None)
                                     else (gameRooms w)(c \<mapsto> removePlayer room s))\<rparr>, [])"
    by blast
next
  assume "s |\<notin>| players r"
  then show "numPlayers (removePlayer (addPlayer r s) s) = numPlayers r" by (rule numPlayers_add_remove)
next
  assume "affiliation w s = None"
  then show "disconnecting w s = Inr (w, [])" by (simp add: affiliation_None disconnecting_def)
qed

theorem registry_invariant_witness:
  "reachable ex_created \<and> no_empty_room ex_created
   \<and> step ex_created (UpdDisconnect ''a'') =
        Some (Inr (ex_created\<lparr>gameRooms := Map.empty, updSockets := {}, updRooms := leaveAll (updRooms ex_created) ''a''\<rparr>, []))
   \<and> no_empty_room (ex_created\<lparr>gameRooms := Map.empty, updSockets := {}, updRooms := leaveAll (updRooms ex_created) ''a''\<rparr>)
   \<and> ''a'' \<in> updSockets ex_created \<and> affiliation ex_created ''a'' = Some ''AAAAAA''
   \<and> disconnecting ex_created ''a'' = Inr (ex_created\<lparr>gameRooms := Map.empty\<rparr>, [])
   \<and> ''b'' |\<notin>| players (newGameRoom ''AAAAAA'')
   \<and> numPlayers (removePlayer (addPlayer (newGameRoom ''AAAAAA'') ''b'') ''b'') = numPlayers (newGameRoom ''AAAAAA'')
   \<and> affiliation ex_connected ''a'' = None \<and> disconnecting ex_connected ''a'' = Inr (ex_connected, [])"
proof -
  let ?w' = "ex_created\<lparr>gameRooms := Map.empty, updSockets := {}, updRooms := leaveAll (updRooms ex_created) ''a''\<rparr>"
  note t = registry_invariant[of ex_created "UpdDisconnect ''a''" ?w' "[]" "''a''" "''AAAAAA''" "newGameRoom ''AAAAAA''"]
  note t2 = registry_invariant[of ex_connected "UpdDisconnect ''a''" ?w' "[]" "''b''" "''AAAAAA''" "newGameRoom ''AAAAAA''"]
  have h1: "reachable ex_created" by (rule reachable_ex_created)
  with t have c1: "no_empty_room ex_created" by blast
  have h3: "''a'' \<in> updSockets ex_created \<and> affiliation ex_created ''a'' = Some ''AAAAAA''"
    by (simp add: ex_created_data affiliation_def)
  with t h1 obtain room where room: "gameRooms ex_created ''AAAAAA'' = Some room"
    and d: "disconnecting ex_created ''a'' =
               Inr (ex_created\<lparr>gameRooms := (if numPlayers (removePlayer room ''a'') = 0
                                     then (gameRooms ex_created)(''AAAAAA'' := None)
                                     else (gameRooms ex_created)(''AAAAAA'' \<mapsto> removePlayer room ''a''))\<rparr>, [])"
    by blast
  from room have "room = \<lparr>code = ''AAAAAA'', players = {|''a''|}, wishlist = None\<rparr>"
    by (simp add: ex_created_rooms)
  with d have c3: "disconnecting ex_created ''a'' = Inr (ex_created\<lparr>gameRooms := Map.empty\<rparr>, [])"
    by (simp add: numPlayers_def removePlayer_def ex_created_rooms)
  have h2: "step ex_created (UpdDisconnect ''a'') = Some (Inr (?w', []))"
    by (simp add: upd_disconnect_def c3 ex_created_data)
  with t c1 have c2: "no_empty_room ?w'" by blast
  have h4: "''b'' |\<notin>| players (newGameRoom ''AAAAAA'')" by (simp add: newGameRoom_def)
  with t2 have c4: "numPlayers (removePlayer (addPlayer (newGameRoom ''AAAAAA'') ''b'') ''b'') = numPlayers (newGameRoom ''AAAAAA'')"
    by blast
  have h5: "affiliation ex_connected ''a'' = None"
    by (simp add: affiliation_def ex_connected_def upd_connection_def)
  with registry_invariant[of ex_connected "UpdDisconnect ''a''" ?w' "[]" "''a''" "''AAAAAA''" "newGameRoom ''AAAAAA''"]
  have c5: "disconnecting ex_connected ''a'' = Inr (ex_connected, [])" by blast
  from h1 c1 h2 c2 h3 c3 h4 c4 h5 c5 show ?thesis by blast
qed

text \<open>
  C8. A session that is in a room does change to another room without disconnecting:
  in \<open>ex_created\<close> socket \<open>a\<close> is in \<open>AAAAAA\<close>, its second \<open>createRoom\<close> is handled like
  the first, and afterwards it is in \<open>BBBBBB\<close>.
\<close>

theorem session_changes_room:
  "reachable ex_created
   \<and> enabled ex_created (UpdCreateRoom ''a'' tape_inc)
   \<and> affiliation ex_created ''a'' = Some ''AAAAAA''
   \<and> step ex_created (UpdCreateRoom ''a'' tape_inc) =
        Some (Inr (ex_recreated, [Emit Update {''a''} (GenerateCode ''BBBBBB'')]))
   \<and> affiliation ex_recreated ''a'' = Some ''BBBBBB''"
  by (simp add: reachable_ex_created ex_created_data ex_recreated_step ex_recreated_data affiliation_def)

text \<open>
  C8, as the code has it: along every run, the stored affiliation of a connected session
  changes only by its own \<open>joinRoom\<close> with a code of the registry or its own
  \<open>createRoom\<close>, each of which is accepted in every state of the session and sets the
  affiliation to that code; no event of another session, and no other event of its own,
  changes it, and it never returns to unaffiliated.
\<close>

theorem affiliation_changes:
  assumes "reachable w" "enabled w e" "t \<in> updSockets w" "step w e = Some (Inr (w', out))"
    "affiliation w' t \<noteq> affiliation w t"
  shows "(\<exists>c. e = UpdJoinRoom t c \<and> gameRooms w c \<noteq> None \<and> affiliation w' t = Some c)
       \<or> (\<exists>tape c. e = UpdCreateRoom t tape \<and> gameRooms w c = None \<and> affiliation w' t = Some c)"
proof (cases e)
  case (UpdConnect s n0)
  with assms show ?thesis by (auto simp: upd_connection_def affiliation_def split: if_splits)
next
  case (UpdJoinRoom s c)
  from assms(1) have keys: "\<forall>c. gameRooms w c \<noteq> None \<longrightarrow> length c = ROOM_CODE_LENGTH"
    by (rule reachable_keys)
  show ?thesis
  proof (cases "gameRooms w c")
    case None
    with UpdJoinRoom assms show ?thesis by (simp add: joinRoom_def)
  next
    case (Some r)
    with keys have "c \<noteq> ''''" by (auto simp: ROOM_CODE_LENGTH_def)
    with Some UpdJoinRoom assms show ?thesis
      by (auto simp: joinRoom_def affiliation_def split: if_splits)
  qed
next
  case (UpdCreateRoom s tape)
  with assms(4) obtain c where c: "newCode (gameRooms w) tape 0 = Some c"
    and w': "w' = w\<lparr>updData := (updData w)(s := (updData w s)\<lparr>roomCode := c\<rparr>),
                  gameRooms := (gameRooms w)(c \<mapsto> addPlayer (newGameRoom c) s),
                  updRooms := join (updRooms w) s c\<rparr>"
    by (auto simp: createRoom_def split: option.splits)
  from c have "gameRooms w c = None" "c \<noteq> ''''" by (auto dest: newCode_fresh newCode_nonempty)
  with w' UpdCreateRoom assms(5) show ?thesis
    by (auto simp: affiliation_def split: if_splits)
next
  case (UpdUpdateWishlist s wl)
  with assms show ?thesis by (auto simp: updateWishlist_def affiliation_def split: option.splits if_splits)
next
  case (UpdDisconnect s)
  with assms show ?thesis
    by (auto simp: upd_disconnect_def disconnecting_def affiliation_def split: option.splits if_splits sum.splits)
next
  case (ChatSendMessage s p)
  with assms show ?thesis by (auto simp: sendMessage_def affiliation_def split: payload.splits if_splits)
qed (use assms in \<open>auto simp: chat_connection_def chat_setName_def affiliation_def
      chat_generateCode_def joinVoiceRoom_def chat_disconnect_def setID_def upd_setName_def Let_def
      split: if_splits\<close>)

theorem affiliation_changes_witness:
  "reachable ex_created \<and> enabled ex_created (UpdCreateRoom ''a'' tape_inc) \<and> ''a'' \<in> updSockets ex_created
   \<and> step ex_created (UpdCreateRoom ''a'' tape_inc) = Some (Inr (ex_recreated, [Emit Update {''a''} (GenerateCode ''BBBBBB'')]))
   \<and> affiliation ex_recreated ''a'' \<noteq> affiliation ex_created ''a''
   \<and> ((\<exists>c. UpdCreateRoom ''a'' tape_inc = UpdJoinRoom ''a'' c \<and> gameRooms ex_created c \<noteq> None \<and> affiliation ex_recreated ''a'' = Some c)
       \<or> (\<exists>tape c. UpdCreateRoom ''a'' tape_inc = UpdCreateRoom ''a'' tape \<and> gameRooms ex_created c = None \<and> affiliation ex_recreated ''a'' = Some c))"
proof -
  have h1: "reachable ex_created" by (rule reachable_ex_created)
  have h2: "enabled ex_created (UpdCreateRoom ''a'' tape_inc)" by (simp add: ex_created_data)
  have h3: "''a'' \<in> updSockets ex_created" by (simp add: ex_created_data)
  have h4: "step ex_created (UpdCreateRoom ''a'' tape_inc) = Some (Inr (ex_recreated, [Emit Update {''a''} (GenerateCode ''BBBBBB'')]))"
    by (simp add: ex_recreated_step)
  have h5: "affiliation ex_recreated ''a'' \<noteq> affiliation ex_created ''a''"
    by (simp add: affiliation_def ex_created_data ex_recreated_data)
  from h1 h2 h3 h4 h5 affiliation_changes[OF h1 h2 h3 h4 h5] show ?thesis by blast
qed







end
